theory Spec2Isabelle
  imports Main "HOL-Library.Word"
begin

unbundle bit_operations_syntax

section \<open>blkzone: the block device zone commands (sys-utils/blkzone.c)\<close>

text \<open>
  A shallow embedding of \<^verbatim>\<open>blkzone_report\<close> and \<^verbatim>\<open>blkzone_reset\<close>. The C integers are
  words of their width on an LP64 Linux (\<^verbatim>\<open>uint8_t\<close>, \<^verbatim>\<open>uint32_t\<close>/\<^verbatim>\<open>unsigned int\<close>,
  \<^verbatim>\<open>uint64_t\<close>/\<^verbatim>\<open>unsigned long\<close>/\<^verbatim>\<open>size_t\<close>), so every sum, product and difference wraps
  as it does in the program. What the kernel and the library answer (open, fstat, the
  ioctls, sysfs) is a record of answers, the \<open>world\<close>; what the program does to the
  outside (system calls, output) is a list of events in program order. A run returns
  its events and either the error it exited on (\<^verbatim>\<open>err\<close>/\<^verbatim>\<open>errx\<close>) or the handler's
  return value. Where the C program has undefined behaviour (a read past the descriptor
  buffer, a string read from outside a table and handed to \<^verbatim>\<open>printf\<close>) the run ends with
  a marker of its own and does nothing more.
\<close>

subsection \<open>Data\<close>

type_synonym u8 = "8 word"
type_synonym u32 = "32 word"
type_synonym u64 = "64 word"

text \<open>\<^verbatim>\<open>struct blk_zone\<close>, \<^verbatim>\<open>struct blk_zone_report\<close> and \<^verbatim>\<open>struct blk_zone_range\<close> of
  \<^verbatim>\<open>linux/blkzoned.h\<close>: the fields the program reads and writes.\<close>

record blk_zone =
  start :: u64
  len :: u64
  wp :: u64
  type :: u8
  cond :: u8
  non_seq :: u8
  reset :: u8

record blk_zone_report =
  sector :: u64
  nr_zones :: u32
  zones :: "blk_zone list"

record blk_zone_range =
  sector :: u64
  nr_sectors :: u64

text \<open>\<^verbatim>\<open>struct blkzone_control\<close>; the field \<^verbatim>\<open>length\<close> is \<open>length_c\<close> here, \<open>length\<close> being
  the length of a list. The \<^verbatim>\<open>command\<close> pointer is the choice between the two handlers
  below.\<close>

record blkzone_control =
  devname :: string
  total_sectors :: u64
  secsize :: int
  offset :: u64
  length_c :: u64
  verbose :: bool

datatype open_mode = O_RDONLY | O_WRONLY

text \<open>One constructor for each \<^verbatim>\<open>err\<close>/\<^verbatim>\<open>errx\<close> exit, in the order of the source, and
  \<open>CannotAllocate\<close> for the exit inside \<^verbatim>\<open>xmalloc\<close>. The last two are no exits of the program.
  They mark the two places where a run has undefined behaviour in C, and a run ends
  there: \<open>ReadPastBuffer\<close> when the loop reads a descriptor beyond those the buffer
  holds, \<open>ReadPastTable\<close> when a string is read from outside \<^verbatim>\<open>condition_str\<close> or
  \<^verbatim>\<open>type_text\<close> to be handed to \<^verbatim>\<open>printf\<close>.\<close>

datatype error =
    CannotOpen
  | StatFailed
  | NotABlockDevice
  | GetSectorsFailed
  | BlkSszGetFailed
  | OffsetGreaterThanDeviceSize
  | CannotAllocate
  | ReportZoneIoctlFailed
  | UnableToDetermineZoneSize
  | ZoneNotAligned
  | ResetZoneIoctlFailed
  | ReadPastBuffer
  | ReadPastTable

text \<open>The arguments of the \<^verbatim>\<open>printf\<close> of one zone (lines 176-181). A table lookup whose
  index is outside the table is \<open>None\<close>: the C program reads whatever follows the table
  and passes it to \<^verbatim>\<open>printf\<close> as a string.\<close>

record zone_line =
  l_start :: u64
  l_len :: u64
  l_wptr :: u64
  l_reset :: u8
  l_non_seq :: u8
  l_cond :: u8
  l_cond_str :: "string option"
  l_type :: u32
  l_type_text :: "string option"

datatype event =
    Sysfs_devname_to_devno string
  | Sysfs_init u64
  | Sysfs_read_u64 u64 string
  | Sysfs_deinit
  | Open_dev string open_mode
  | Fstat
  | Blkdev_get_sectors
  | Blkdev_get_sector_size
  | Xmalloc u64
  | Ioctl_BLKREPORTZONE u64 u32
  | Ioctl_BLKRESETZONE blk_zone_range
  | Warnx_limiting u64
  | Printf_found u32
  | Printf_returned u32
  | Printf_zone zone_line
  | Printf_reset string u64 u64
  | Free
  | Close

text \<open>The answers of the system. \<open>sysfs_init\<close> and \<open>open_dev\<close> hold when the call
  succeeds; \<open>sysfs_read_u64\<close>, \<open>blkdev_get_sectors\<close> and \<open>blkdev_get_sector_size\<close> are
  \<open>None\<close> when the call fails; \<open>ioctl_blkreportzone\<close> is \<open>None\<close> when the ioctl returns
  -1 and else the report structure as the kernel leaves it, \<open>zones\<close> being the
  descriptors it wrote, of which the buffer of the program holds as many as were allocated;
  \<open>ioctl_blkresetzone\<close> holds when the ioctl does not return -1.\<close>

record world =
  sysfs_devname_to_devno :: "string \<Rightarrow> u64"
  sysfs_init :: "u64 \<Rightarrow> bool"
  sysfs_read_u64 :: "u64 \<Rightarrow> string \<Rightarrow> u64 option"
  open_dev :: "string \<Rightarrow> open_mode \<Rightarrow> bool"
  fstat_ok :: bool
  s_isblk :: bool
  blkdev_get_sectors :: "u64 option"
  blkdev_get_sector_size :: "int option"
  xmalloc_ok :: "u64 \<Rightarrow> bool"
  ioctl_blkreportzone :: "u64 \<Rightarrow> u32 \<Rightarrow> blk_zone_report option"
  ioctl_blkresetzone :: "blk_zone_range \<Rightarrow> bool"

type_synonym 'a run = "event list \<times> (error + 'a)"

subsection \<open>init_device (lines 87-108)\<close>

definition init_device :: "world \<Rightarrow> blkzone_control \<Rightarrow> open_mode \<Rightarrow> blkzone_control run" where
  "init_device w ctl mode =
     (if \<not> open_dev w (devname ctl) mode then
        ([Open_dev (devname ctl) mode], Inl CannotOpen)
      else if \<not> fstat_ok w then
        ([Open_dev (devname ctl) mode, Fstat], Inl StatFailed)
      else if \<not> s_isblk w then
        ([Open_dev (devname ctl) mode, Fstat], Inl NotABlockDevice)
      else
        (case blkdev_get_sectors w of
           None \<Rightarrow>
             ([Open_dev (devname ctl) mode, Fstat, Blkdev_get_sectors], Inl GetSectorsFailed)
         | Some n \<Rightarrow>
             (case blkdev_get_sector_size w of
                None \<Rightarrow>
                  ([Open_dev (devname ctl) mode, Fstat, Blkdev_get_sectors,
                    Blkdev_get_sector_size], Inl BlkSszGetFailed)
              | Some s \<Rightarrow>
                  ([Open_dev (devname ctl) mode, Fstat, Blkdev_get_sectors,
                    Blkdev_get_sector_size],
                   Inr (ctl\<lparr>total_sectors := n, secsize := s\<rparr>)))))"

subsection \<open>blkzone report (lines 110-188)\<close>

definition DEF_REPORT_LEN :: u64 where
  "DEF_REPORT_LEN = push_bit 12 1"

definition MAX_REPORT_LEN :: u64 where
  "MAX_REPORT_LEN = push_bit 16 1"

definition type_text :: "string list" where
  "type_text = [''RESERVED'', ''CONVENTIONAL'', ''SEQ_WRITE_REQUIRED'', ''SEQ_WRITE_PREFERRED'']"

definition condition_str :: "string list" where
  "condition_str =
     [''cv'', ''e0'', ''Oi'', ''Oe'', ''Cl'',
      ''x5'', ''x6'', ''x7'', ''x8'', ''x9'', ''xA'', ''xB'',
      ''ro'', ''fu'', ''OL'']"

text \<open>\<^verbatim>\<open>ARRAY_SIZE\<close> (c.h): the number of elements, a \<^verbatim>\<open>size_t\<close>.\<close>

definition ARRAY_SIZE :: "'a list \<Rightarrow> u64" where
  "ARRAY_SIZE a = word_of_nat (length a)"

text \<open>Reading element \<open>i\<close> of a C array of \<open>length a\<close> elements.\<close>

definition array_read :: "'a list \<Rightarrow> nat \<Rightarrow> 'a option" where
  "array_read a i = (if i < length a then Some (a ! i) else None)"

text \<open>The two subscripts of lines 180 and 181: \<^verbatim>\<open>cond & ARRAY_SIZE(condition_str)\<close>, the
  \<^verbatim>\<open>uint8_t\<close> converted to \<^verbatim>\<open>size_t\<close>, and \<^verbatim>\<open>type\<close>, an \<^verbatim>\<open>unsigned int\<close>.\<close>

definition condition_index :: "u8 \<Rightarrow> u64" where
  "condition_index c = ucast c AND ARRAY_SIZE condition_str"

definition type_index :: "u8 \<Rightarrow> u32" where
  "type_index t = ucast t"

text \<open>Lines 166-171 and the arguments of lines 176-181.\<close>

definition format_zone :: "blk_zone \<Rightarrow> zone_line" where
  "format_zone entry =
     \<lparr>l_start = start entry,
      l_len = len entry,
      l_wptr = wp entry - start entry,
      l_reset = reset entry,
      l_non_seq = non_seq entry,
      l_cond = cond entry,
      l_cond_str = array_read condition_str (unat (condition_index (cond entry))),
      l_type = type_index (type entry),
      l_type_text = array_read type_text (unat (type_index (type entry)))\<rparr>"

text \<open>Whether both strings of the line of a descriptor are read inside their tables.\<close>

definition lookups_inside :: "blk_zone \<Rightarrow> bool" where
  "lookups_inside entry =
     (l_cond_str (format_zone entry) \<noteq> None \<and> l_type_text (format_zone entry) \<noteq> None)"

text \<open>The loop of lines 165-182 over the buffer \<open>zs\<close>, \<open>n\<close> being \<^verbatim>\<open>zi->nr_zones\<close> and \<open>i\<close>
  the counter. The counter is a \<^verbatim>\<open>uint32_t\<close> below \<open>n\<close>, itself a \<^verbatim>\<open>uint32_t\<close>, so \<open>i + 1\<close>
  never wraps. At a descriptor with a string outside its table the \<^verbatim>\<open>printf\<close> of lines
  176-181 is undefined: the run ends there with \<open>ReadPastTable\<close> and the line is not
  printed.\<close>

function report_loop :: "blk_zone list \<Rightarrow> nat \<Rightarrow> nat \<Rightarrow> unit run" where
  "report_loop zs n i =
     (if i < n then
        (if i < length zs then
           (if len (zs ! i) = 0 then ([], Inr ())
            else if \<not> lookups_inside (zs ! i) then ([], Inl ReadPastTable)
            else
              (case report_loop zs n (i + 1) of
                 (evs, r) \<Rightarrow> (Printf_zone (format_zone (zs ! i)) # evs, r)))
         else ([], Inl ReadPastBuffer))
      else ([], Inr ()))"
  by pat_completeness auto
termination
  by (relation "measure (\<lambda>(zs, n, i). n - i)") auto

declare report_loop.simps [simp del]

text \<open>\<^verbatim>\<open>sizeof(struct blk_zone_report)\<close> and \<^verbatim>\<open>sizeof(struct blk_zone)\<close> in
  \<^verbatim>\<open>linux/blkzoned.h\<close>.\<close>

definition sizeof_blk_zone_report :: u64 where
  "sizeof_blk_zone_report = 16"

definition sizeof_blk_zone :: u64 where
  "sizeof_blk_zone = 64"

definition blkzone_report :: "world \<Rightarrow> blkzone_control \<Rightarrow> int run" where
  "blkzone_report w ctl0 =
     (case init_device w ctl0 O_RDONLY of
        (t1, Inl e) \<Rightarrow> (t1, Inl e)
      | (t1, Inr ctl1) \<Rightarrow>
          if offset ctl1 > total_sectors ctl1 then (t1, Inl OffsetGreaterThanDeviceSize)
          else
            (let ctl2 = (if length_c ctl1 < 1 then ctl1\<lparr>length_c := 1\<rparr> else ctl1);
                 ctl3 = (if length_c ctl2 > MAX_REPORT_LEN
                         then ctl2\<lparr>length_c := MAX_REPORT_LEN\<rparr> else ctl2);
                 t2 = (if length_c ctl2 > MAX_REPORT_LEN
                       then [Warnx_limiting (length_c ctl3)] else []);
                 sz = sizeof_blk_zone_report + length_c ctl3 * sizeof_blk_zone;
                 zi = \<lparr>blk_zone_report.sector = offset ctl3,
                       nr_zones = ucast (length_c ctl3), zones = []\<rparr>;
                 t3 = t1 @ t2 @ [Xmalloc sz]
             in if \<not> xmalloc_ok w sz then (t3, Inl CannotAllocate)
                else
                  (case ioctl_blkreportzone w (blk_zone_report.sector zi) (nr_zones zi) of
                     None \<Rightarrow>
                       (t3 @ [Ioctl_BLKREPORTZONE (blk_zone_report.sector zi) (nr_zones zi)],
                        Inl ReportZoneIoctlFailed)
                   | Some zi' \<Rightarrow>
                       (let t4 = t3
                              @ [Ioctl_BLKREPORTZONE (blk_zone_report.sector zi) (nr_zones zi)]
                              @ (if verbose ctl3 then [Printf_found (nr_zones zi')] else [])
                              @ [Printf_returned (nr_zones zi')]
                        in case report_loop (take (unat (nr_zones zi)) (zones zi'))
                                  (unat (nr_zones zi')) 0 of
                             (t5, Inl e) \<Rightarrow> (t4 @ t5, Inl e)
                           | (t5, Inr u) \<Rightarrow> (t4 @ t5 @ [Free, Close], Inr 0)))))"

subsection \<open>blkzone reset (lines 190-256)\<close>

text \<open>\<^verbatim>\<open>major\<close>, \<^verbatim>\<open>minor\<close> and \<^verbatim>\<open>makedev\<close> of the C library (sys/sysmacros.h), on a 64-bit
  \<^verbatim>\<open>dev_t\<close> and \<^verbatim>\<open>unsigned int\<close> numbers.\<close>

definition major :: "u64 \<Rightarrow> u32" where
  "major dev =
     ucast (drop_bit 8 (dev AND 0x00000000000fff00) OR drop_bit 32 (dev AND 0xfffff00000000000))"

definition minor :: "u64 \<Rightarrow> u32" where
  "minor dev =
     ucast ((dev AND 0x00000000000000ff) OR drop_bit 12 (dev AND 0x00000ffffff00000))"

definition makedev :: "u32 \<Rightarrow> u32 \<Rightarrow> u64" where
  "makedev ma mi =
     push_bit 8 (ucast (ma AND 0x00000fff)) OR push_bit 32 (ucast (ma AND 0xfffff000))
     OR ucast (mi AND 0x000000ff) OR push_bit 12 (ucast (mi AND 0xffffff00))"

text \<open>Lines 193-215. The value is 0 when the zone size cannot be read.\<close>

definition blkdev_chunk_sectors :: "world \<Rightarrow> string \<Rightarrow> event list \<times> u64" where
  "blkdev_chunk_sectors w dname =
     (let devno = sysfs_devname_to_devno w dname;
          major_no = major devno;
          block_no = minor devno AND NOT 0x0f;
          devno = makedev major_no block_no
      in if \<not> sysfs_init w devno then
           ([Sysfs_devname_to_devno dname, Sysfs_init devno], 0)
         else
           (case sysfs_read_u64 w devno ''queue/chunk_sectors'' of
              None \<Rightarrow>
                ([Sysfs_devname_to_devno dname, Sysfs_init devno,
                  Sysfs_read_u64 devno ''queue/chunk_sectors'', Sysfs_deinit], 0)
            | Some sz \<Rightarrow>
                ([Sysfs_devname_to_devno dname, Sysfs_init devno,
                  Sysfs_read_u64 devno ''queue/chunk_sectors'', Sysfs_deinit], sz)))"

text \<open>Lines 238-244: the range handed to the ioctl.\<close>

definition reset_range :: "blkzone_control \<Rightarrow> u64 \<Rightarrow> blk_zone_range" where
  "reset_range ctl zonesize =
     (let zlen = length_c ctl * zonesize;
          zlen = (if offset ctl + zlen > total_sectors ctl
                  then total_sectors ctl - length_c ctl else zlen)
      in \<lparr>sector = offset ctl, nr_sectors = zlen\<rparr>)"

definition blkzone_reset :: "world \<Rightarrow> blkzone_control \<Rightarrow> int run" where
  "blkzone_reset w ctl0 =
     (case blkdev_chunk_sectors w (devname ctl0) of
        (t0, zonesize) \<Rightarrow>
          if zonesize = 0 then (t0, Inl UnableToDetermineZoneSize)
          else
            (case init_device w ctl0 O_WRONLY of
               (t1, Inl e) \<Rightarrow> (t0 @ t1, Inl e)
             | (t1, Inr ctl) \<Rightarrow>
                 if offset ctl AND (zonesize - 1) \<noteq> 0 then (t0 @ t1, Inl ZoneNotAligned)
                 else if offset ctl > total_sectors ctl then
                   (t0 @ t1, Inl OffsetGreaterThanDeviceSize)
                 else
                   (let za = reset_range ctl zonesize
                    in if \<not> ioctl_blkresetzone w za then
                         (t0 @ t1 @ [Ioctl_BLKRESETZONE za], Inl ResetZoneIoctlFailed)
                       else
                         (t0 @ t1 @ [Ioctl_BLKRESETZONE za]
                          @ (if verbose ctl
                             then [Printf_reset (devname ctl) (offset ctl) (nr_sectors za)]
                             else [])
                          @ [Close], Inr 0))))"

subsection \<open>Reading a run\<close>

text \<open>The zone lines a run printed, the warnings it emitted, the ranges it reset and the
  report requests it made, each in program order.\<close>

definition printed_zones :: "event list \<Rightarrow> zone_line list" where
  "printed_zones evs = [l. Printf_zone l \<leftarrow> evs]"

definition warnings :: "event list \<Rightarrow> u64 list" where
  "warnings evs = [n. Warnx_limiting n \<leftarrow> evs]"

definition reset_ranges :: "event list \<Rightarrow> blk_zone_range list" where
  "reset_ranges evs = [za. Ioctl_BLKRESETZONE za \<leftarrow> evs]"

definition report_requests :: "event list \<Rightarrow> (u64 \<times> u32) list" where
  "report_requests evs = [(s, n). Ioctl_BLKREPORTZONE s n \<leftarrow> evs]"

definition allocations :: "event list \<Rightarrow> u64 list" where
  "allocations evs = [n. Xmalloc n \<leftarrow> evs]"

definition opens :: "event list \<Rightarrow> open_mode list" where
  "opens evs = [m. Open_dev d m \<leftarrow> evs]"

fun is_warning :: "event \<Rightarrow> bool" where
  "is_warning (Warnx_limiting n) = True"
| "is_warning e = False"

text \<open>Names for three parts of \<^verbatim>\<open>blkzone_report\<close>, used to state what a run looks like:
  whether the run passes \<^verbatim>\<open>init_device\<close> and the offset check of line 143; the length
  after lines 145-148; the output of lines 160-187 for the structure in the buffer.\<close>

definition report_validated :: "world \<Rightarrow> blkzone_control \<Rightarrow> bool" where
  "report_validated w ctl =
     (case init_device w ctl O_RDONLY of
        (t, Inl e) \<Rightarrow> False
      | (t, Inr c) \<Rightarrow> \<not> offset c > total_sectors c)"

definition report_length :: "u64 \<Rightarrow> u64" where
  "report_length l =
     (let l = (if l < 1 then 1 else l) in if l > MAX_REPORT_LEN then MAX_REPORT_LEN else l)"

definition report_output :: "bool \<Rightarrow> blk_zone_report \<Rightarrow> int run" where
  "report_output v zi =
     ((if v then [Printf_found (nr_zones zi)] else []) @ [Printf_returned (nr_zones zi)]
        @ fst (report_loop (zones zi) (unat (nr_zones zi)) 0)
        @ (case snd (report_loop (zones zi) (unat (nr_zones zi)) 0) of
             Inl e \<Rightarrow> [] | Inr u \<Rightarrow> [Free, Close]),
      (case snd (report_loop (zones zi) (unat (nr_zones zi)) 0) of
         Inl e \<Rightarrow> Inl e | Inr u \<Rightarrow> Inr 0))"

text \<open>Whether a run of \<^verbatim>\<open>blkzone_reset\<close> passes every check before the ioctl: the zone
  size is determined (line 225), the device is opened, the offset is aligned (line 230)
  and not greater than the device size (line 235).\<close>

definition reset_validated :: "world \<Rightarrow> blkzone_control \<Rightarrow> bool" where
  "reset_validated w ctl =
     (case blkdev_chunk_sectors w (devname ctl) of
        (t0, zonesize) \<Rightarrow>
          zonesize \<noteq> 0 \<and>
          (case init_device w ctl O_WRONLY of
             (t1, Inl e) \<Rightarrow> False
           | (t1, Inr c) \<Rightarrow>
               offset c AND (zonesize - 1) = 0 \<and> \<not> offset c > total_sectors c))"

subsection \<open>A device to run on\<close>

text \<open>The device of the specification's scenarios: 1,000,000 sectors in zones of 65536
  sectors, at device number 8:0, its partitions included; a report answers with at
  most three descriptors.\<close>

definition example_zone :: "u64 \<Rightarrow> blk_zone" where
  "example_zone k =
     \<lparr>start = k * 65536, len = 65536, wp = k * 65536, type = 2, cond = 1, non_seq = 0,
      reset = 0\<rparr>"

definition example_report :: "u64 \<Rightarrow> u32 \<Rightarrow> blk_zone_report option" where
  "example_report s n =
     Some \<lparr>blk_zone_report.sector = s,
           nr_zones = (if n < 3 then n else 3),
           zones = take (unat n) [example_zone 0, example_zone 1, example_zone 2]\<rparr>"

definition example_world :: world where
  "example_world =
     \<lparr>sysfs_devname_to_devno = (\<lambda>d. 0x801),
      sysfs_init = (\<lambda>d. d = 0x800),
      sysfs_read_u64 = (\<lambda>d a. if a = ''queue/chunk_sectors'' then Some 65536 else None),
      open_dev = (\<lambda>d m. True),
      fstat_ok = True,
      s_isblk = True,
      blkdev_get_sectors = Some 1000000,
      blkdev_get_sector_size = Some 512,
      xmalloc_ok = (\<lambda>n. True),
      ioctl_blkreportzone = example_report,
      ioctl_blkresetzone = (\<lambda>za. True)\<rparr>"

definition example_ctl :: "u64 \<Rightarrow> u64 \<Rightarrow> blkzone_control" where
  "example_ctl off n =
     \<lparr>devname = ''/dev/sda1'', total_sectors = 0, secsize = 0, offset = off, length_c = n,
      verbose = False\<rparr>"

text \<open>The same device answering a report with a given structure; three such answers: one
  with a descriptor of length zero in the middle, one with an offline zone (condition
  \<^verbatim>\<open>BLK_ZONE_COND_OFFLINE\<close>, 15), one with a zone type outside the four defined.\<close>

definition example_world_answering :: "blk_zone_report \<Rightarrow> world" where
  "example_world_answering zi = example_world\<lparr>ioctl_blkreportzone := (\<lambda>s n. Some zi)\<rparr>"


definition offline_answer :: blk_zone_report where
  "offline_answer =
     \<lparr>blk_zone_report.sector = 0, nr_zones = 1, zones = [(example_zone 0)\<lparr>cond := 15\<rparr>]\<rparr>"

definition odd_type_answer :: blk_zone_report where
  "odd_type_answer =
     \<lparr>blk_zone_report.sector = 0, nr_zones = 2,
      zones = [example_zone 0, (example_zone 1)\<lparr>type := 7\<rparr>]\<rparr>"

text \<open>The same device with zones of 196608 sectors (96 MiB, three times a power of two),
  and the same device with no entry in sysfs.\<close>

definition npo2_world :: world where
  "npo2_world =
     example_world\<lparr>sysfs_read_u64 :=
       (\<lambda>d a. if a = ''queue/chunk_sectors'' then Some 196608 else None)\<rparr>"

definition no_sysfs_world :: world where
  "no_sysfs_world = example_world\<lparr>sysfs_init := (\<lambda>d. False)\<rparr>"

section \<open>Properties\<close>

subsection \<open>The report loop\<close>

text \<open>The loop prints the descriptors among the first \<open>n\<close> of the buffer that come before
  the first one of length zero and before the first one with a string outside its table,
  and nothing else. It ends with \<open>ReadPastTable\<close> exactly when a descriptor before the first
  one of length zero has a string outside its table; else it ends without fault when the
  buffer holds \<open>n\<close> descriptors or a descriptor of length zero comes first.\<close>

lemma report_loop_events:
  "fst (report_loop zs n i) =
     map (\<lambda>z. Printf_zone (format_zone z))
       (takeWhile (\<lambda>z. len z \<noteq> 0 \<and> lookups_inside z) (take (n - i) (drop i zs)))"
proof (induction zs n i rule: report_loop.induct)
  case (1 zs n i)
  show ?case
  proof (cases "i < n \<and> i < length zs")
    case True
    then have d: "drop i zs = zs ! i # drop (Suc i) zs"
      by (simp add: Cons_nth_drop_Suc)
    from True have t: "n - i = Suc (n - Suc i)"
      by arith
    show ?thesis
    proof (cases "len (zs ! i) \<noteq> 0 \<and> lookups_inside (zs ! i)")
      case False
      with True d t show ?thesis
        by (subst report_loop.simps) auto
    next
      case go: True
      with True 1 have ih: "fst (report_loop zs n (i + 1)) =
          map (\<lambda>z. Printf_zone (format_zone z))
            (takeWhile (\<lambda>z. len z \<noteq> 0 \<and> lookups_inside z) (take (n - (i + 1)) (drop (i + 1) zs)))"
        by simp
      from True go d t ih show ?thesis
        by (subst report_loop.simps) (simp add: split_beta)
    qed
  next
    case False
    then show ?thesis
      by (subst report_loop.simps) auto
  qed
qed

lemma printed_zones_map [simp]:
  "printed_zones (map (\<lambda>z. Printf_zone (f z)) zs) = map f zs"
  by (induction zs) (simp_all add: printed_zones_def)

lemma report_loop_result_cases:
  "snd (report_loop zs n i) = Inr () \<or> snd (report_loop zs n i) = Inl ReadPastBuffer
   \<or> snd (report_loop zs n i) = Inl ReadPastTable"
proof (induction zs n i rule: report_loop.induct)
  case (1 zs n i)
  then show ?case
    by (subst (1 2 3) report_loop.simps) (auto simp: split_beta)
qed

lemma report_loop_table_fault:
  "snd (report_loop zs n i) = Inl ReadPastTable \<longleftrightarrow>
     (\<exists>z \<in> set (takeWhile (\<lambda>z. len z \<noteq> 0) (take (n - i) (drop i zs))). \<not> lookups_inside z)"
proof (induction zs n i rule: report_loop.induct)
  case (1 zs n i)
  show ?case
  proof (cases "i < n \<and> i < length zs")
    case True
    then have d: "drop i zs = zs ! i # drop (Suc i) zs"
      by (simp add: Cons_nth_drop_Suc)
    from True have t: "n - i = Suc (n - Suc i)"
      by arith
    show ?thesis
    proof (cases "len (zs ! i) \<noteq> 0 \<and> lookups_inside (zs ! i)")
      case False
      with True d t show ?thesis
        by (subst report_loop.simps) auto
    next
      case go: True
      with True 1 have ih: "snd (report_loop zs n (i + 1)) = Inl ReadPastTable \<longleftrightarrow>
          (\<exists>z \<in> set (takeWhile (\<lambda>z. len z \<noteq> 0) (take (n - (i + 1)) (drop (i + 1) zs))).
             \<not> lookups_inside z)"
        by simp
      from True go d t ih show ?thesis
        by (subst report_loop.simps) (simp add: split_beta)
    qed
  next
    case False
    then show ?thesis
      by (subst report_loop.simps) auto
  qed
qed






subsection \<open>Reading a run of the report\<close>

text \<open>What a run of \<^verbatim>\<open>blkzone_report\<close> is, case by case: it exits in \<^verbatim>\<open>init_device\<close> or on
  the offset, or it is validated and then warns (or not), allocates, asks the device and
  prints.\<close>

lemma projections_append [simp]:
  "printed_zones (xs @ ys) = printed_zones xs @ printed_zones ys"
  "warnings (xs @ ys) = warnings xs @ warnings ys"
  "reset_ranges (xs @ ys) = reset_ranges xs @ reset_ranges ys"
  "report_requests (xs @ ys) = report_requests xs @ report_requests ys"
  "allocations (xs @ ys) = allocations xs @ allocations ys"
  "opens (xs @ ys) = opens xs @ opens ys"
  by (simp_all add: printed_zones_def warnings_def reset_ranges_def report_requests_def
      allocations_def opens_def)

lemma projections_Nil [simp]:
  "printed_zones [] = []" "warnings [] = []" "reset_ranges [] = []"
  "report_requests [] = []" "allocations [] = []" "opens [] = []"
  by (simp_all add: printed_zones_def warnings_def reset_ranges_def report_requests_def
      allocations_def opens_def)

lemma projections_Cons [simp]:
  "printed_zones (e # evs) = (case e of Printf_zone l \<Rightarrow> [l] | _ \<Rightarrow> []) @ printed_zones evs"
  "warnings (e # evs) = (case e of Warnx_limiting n \<Rightarrow> [n] | _ \<Rightarrow> []) @ warnings evs"
  "reset_ranges (e # evs) = (case e of Ioctl_BLKRESETZONE za \<Rightarrow> [za] | _ \<Rightarrow> []) @ reset_ranges evs"
  "report_requests (e # evs) =
     (case e of Ioctl_BLKREPORTZONE s n \<Rightarrow> [(s, n)] | _ \<Rightarrow> []) @ report_requests evs"
  "allocations (e # evs) = (case e of Xmalloc n \<Rightarrow> [n] | _ \<Rightarrow> []) @ allocations evs"
  "opens (e # evs) = (case e of Open_dev d m \<Rightarrow> [m] | _ \<Rightarrow> []) @ opens evs"
  by (simp_all add: printed_zones_def warnings_def reset_ranges_def report_requests_def
      allocations_def opens_def)

lemma init_device_quiet [simp]:
  "report_requests (fst (init_device w ctl mode)) = []"
  "allocations (fst (init_device w ctl mode)) = []"
  "warnings (fst (init_device w ctl mode)) = []"
  "printed_zones (fst (init_device w ctl mode)) = []"
  "reset_ranges (fst (init_device w ctl mode)) = []"
  by (simp_all add: init_device_def split: option.splits)

lemma init_device_Inr:
  assumes "init_device w ctl mode = (t, Inr ctl')"
  shows "\<exists>n s. blkdev_get_sectors w = Some n \<and> blkdev_get_sector_size w = Some s
           \<and> ctl' = ctl\<lparr>total_sectors := n, secsize := s\<rparr>
           \<and> t = [Open_dev (devname ctl) mode, Fstat, Blkdev_get_sectors, Blkdev_get_sector_size]"
proof (cases "blkdev_get_sectors w")
  case None
  with assms show ?thesis
    by (simp add: init_device_def split: if_splits)
next
  case (Some n)
  note n = this
  show ?thesis
  proof (cases "blkdev_get_sector_size w")
    case None
    with assms n show ?thesis
      by (simp add: init_device_def split: if_splits)
  next
    case (Some s)
    with assms n show ?thesis
      by (simp add: init_device_def split: if_splits)
  qed
qed

lemma zone_events_quiet [simp]:
  "report_requests (map (\<lambda>z. Printf_zone (f z)) zs) = []"
  "allocations (map (\<lambda>z. Printf_zone (f z)) zs) = []"
  "warnings (map (\<lambda>z. Printf_zone (f z)) zs) = []"
  by (induction zs) simp_all

lemma report_loop_quiet [simp]:
  "report_requests (fst (report_loop zs n i)) = []"
  "allocations (fst (report_loop zs n i)) = []"
  "warnings (fst (report_loop zs n i)) = []"
  by (simp_all add: report_loop_events)

lemma MAX_REPORT_LEN_val: "MAX_REPORT_LEN = 65536"
  by (simp add: MAX_REPORT_LEN_def)

lemma DEF_REPORT_LEN_val: "DEF_REPORT_LEN = 4096"
  by (simp add: DEF_REPORT_LEN_def)

lemma blkzone_report_init_failed:
  "init_device w ctl O_RDONLY = (t, Inl e) \<Longrightarrow> blkzone_report w ctl = (t, Inl e)"
  by (simp add: blkzone_report_def)

lemma blkzone_report_offset_failed:
  "init_device w ctl O_RDONLY = (t, Inr c) \<Longrightarrow> offset c > total_sectors c \<Longrightarrow>
     blkzone_report w ctl = (t, Inl OffsetGreaterThanDeviceSize)"
  by (simp add: blkzone_report_def)

lemma blkzone_report_validated:
  assumes init: "init_device w ctl O_RDONLY = (t, Inr c)"
    and off: "\<not> offset c > total_sectors c"
  shows "blkzone_report w ctl =
     (let l = report_length (length_c c);
          sz = sizeof_blk_zone_report + l * sizeof_blk_zone;
          pre = t @ (if length_c c > MAX_REPORT_LEN then [Warnx_limiting MAX_REPORT_LEN] else [])
                  @ [Xmalloc sz]
      in if \<not> xmalloc_ok w sz then (pre, Inl CannotAllocate)
         else
           (case ioctl_blkreportzone w (offset c) (ucast l) of
              None \<Rightarrow> (pre @ [Ioctl_BLKREPORTZONE (offset c) (ucast l)], Inl ReportZoneIoctlFailed)
            | Some zi \<Rightarrow>
                (pre @ [Ioctl_BLKREPORTZONE (offset c) (ucast l)]
                   @ fst (report_output (verbose c)
                            (zi\<lparr>zones := take (unat (ucast l :: u32)) (zones zi)\<rparr>)),
                 snd (report_output (verbose c)
                        (zi\<lparr>zones := take (unat (ucast l :: u32)) (zones zi)\<rparr>)))))"
proof -
  have max: "\<not> (1::u64) > MAX_REPORT_LEN"
    by (simp add: MAX_REPORT_LEN_def)
  show ?thesis
  proof (cases "length_c c < 1")
    case True
    with init off max show ?thesis
      by (simp add: blkzone_report_def report_length_def report_output_def Let_def split_beta
          split: option.splits sum.splits)
  next
    case False
    note nz = this
    show ?thesis
    proof (cases "length_c c > MAX_REPORT_LEN")
      case True
      with init off nz show ?thesis
        by (simp add: blkzone_report_def report_length_def report_output_def Let_def split_beta
            split: option.splits sum.splits)
    next
      case False
      with init off nz show ?thesis
        by (simp add: blkzone_report_def report_length_def report_output_def Let_def split_beta
            split: option.splits sum.splits)
    qed
  qed
qed

lemma report_output_quiet [simp]:
  "report_requests (fst (report_output v zi)) = []"
  "allocations (fst (report_output v zi)) = []"
  "warnings (fst (report_output v zi)) = []"
  by (simp_all add: report_output_def split: sum.splits)

lemma report_output_zones [simp]:
  "printed_zones (fst (report_output v zi)) =
     map format_zone
       (takeWhile (\<lambda>z. len z \<noteq> 0 \<and> lookups_inside z) (take (unat (nr_zones zi)) (zones zi)))"
  by (simp add: report_output_def report_loop_events split: sum.splits)

lemma not_validated_quiet:
  assumes "\<not> report_validated w ctl"
  shows "report_requests (fst (blkzone_report w ctl)) = []
       \<and> allocations (fst (blkzone_report w ctl)) = []
       \<and> warnings (fst (blkzone_report w ctl)) = []
       \<and> printed_zones (fst (blkzone_report w ctl)) = []
       \<and> (\<exists>e. snd (blkzone_report w ctl) = Inl e)"
proof -
  obtain t r where init: "init_device w ctl O_RDONLY = (t, r)"
    by (cases "init_device w ctl O_RDONLY")
  have quiet: "report_requests t = []" "allocations t = []" "warnings t = []" "printed_zones t = []"
    using init_device_quiet [of w ctl O_RDONLY] init by simp_all
  show ?thesis
  proof (cases r)
    case (Inl e)
    with init have "blkzone_report w ctl = (t, Inl e)"
      by (simp add: blkzone_report_init_failed)
    with quiet show ?thesis
      by simp
  next
    case (Inr c)
    with init assms have "offset c > total_sectors c"
      by (simp add: report_validated_def)
    with init Inr have "blkzone_report w ctl = (t, Inl OffsetGreaterThanDeviceSize)"
      by (simp add: blkzone_report_offset_failed)
    with quiet show ?thesis
      by simp
  qed
qed

lemma validated_run:
  assumes "report_validated w ctl"
  shows "warnings (fst (blkzone_report w ctl)) =
           (if length_c ctl > MAX_REPORT_LEN then [MAX_REPORT_LEN] else [])"
    and "allocations (fst (blkzone_report w ctl)) =
           [sizeof_blk_zone_report + report_length (length_c ctl) * sizeof_blk_zone]"
    and "report_requests (fst (blkzone_report w ctl)) =
           (if xmalloc_ok w (sizeof_blk_zone_report + report_length (length_c ctl) * sizeof_blk_zone)
            then [(offset ctl, ucast (report_length (length_c ctl)))] else [])"
proof -
  obtain t r where init: "init_device w ctl O_RDONLY = (t, r)"
    by (cases "init_device w ctl O_RDONLY")
  with assms obtain c where r: "r = Inr c" and off: "\<not> offset c > total_sectors c"
    by (cases r) (simp_all add: report_validated_def)
  from init r init_device_Inr [of w ctl O_RDONLY t c]
  have c: "offset c = offset ctl" "length_c c = length_c ctl"
    by auto
  have quiet: "report_requests t = []" "allocations t = []" "warnings t = []"
    using init_device_quiet [of w ctl O_RDONLY] init by simp_all
  note run = blkzone_report_validated [OF init [unfolded r] off, unfolded c]
  show "warnings (fst (blkzone_report w ctl)) =
           (if length_c ctl > MAX_REPORT_LEN then [MAX_REPORT_LEN] else [])"
    by (simp add: run Let_def quiet split: option.splits)
  show "allocations (fst (blkzone_report w ctl)) =
           [sizeof_blk_zone_report + report_length (length_c ctl) * sizeof_blk_zone]"
    by (simp add: run Let_def quiet split: option.splits)
  show "report_requests (fst (blkzone_report w ctl)) =
           (if xmalloc_ok w (sizeof_blk_zone_report + report_length (length_c ctl) * sizeof_blk_zone)
            then [(offset ctl, ucast (report_length (length_c ctl)))] else [])"
    by (simp add: run Let_def quiet split: option.splits)
qed

lemma report_length_bounds: "1 \<le> unat (report_length l) \<and> unat (report_length l) \<le> 65536"
  by (simp add: report_length_def MAX_REPORT_LEN_def Let_def word_less_nat_alt word_le_nat_alt)

lemma report_length_ucast:
  "unat (ucast (report_length l) :: u32) = unat (report_length l)"
  using report_length_bounds [of l] by (simp add: unsigned_ucast_eq take_bit_nat_eq_self)

lemma ucast_report_length:
  "(ucast (ucast (report_length l) :: u32) :: u64) = report_length l"
  using report_length_bounds [of l]
  by (simp add: word_unat_eq_iff unsigned_ucast_eq unsigned_take_bit_eq take_bit_nat_eq_self)

lemma allocation_size:
  "unat (sizeof_blk_zone_report + report_length l * sizeof_blk_zone)
     = 16 + unat (report_length l) * 64"
  using report_length_bounds [of l]
  by (simp add: sizeof_blk_zone_report_def sizeof_blk_zone_def unat_word_ariths)

lemma validated_answered:
  assumes v: "report_validated w ctl"
    and alloc: "xmalloc_ok w (sizeof_blk_zone_report + report_length (length_c ctl) * sizeof_blk_zone)"
    and ans: "ioctl_blkreportzone w (offset ctl) (ucast (report_length (length_c ctl))) = Some zi"
  shows "printed_zones (fst (blkzone_report w ctl)) =
           map format_zone
             (takeWhile (\<lambda>z. len z \<noteq> 0 \<and> lookups_inside z)
                (take (unat (nr_zones zi))
                   (take (unat (ucast (report_length (length_c ctl)) :: u32)) (zones zi))))"
    and "snd (blkzone_report w ctl) =
           snd (report_output (verbose ctl)
                  (zi\<lparr>zones := take (unat (ucast (report_length (length_c ctl)) :: u32))
                                   (zones zi)\<rparr>))"
proof -
  obtain t r where init: "init_device w ctl O_RDONLY = (t, r)"
    by (cases "init_device w ctl O_RDONLY")
  with v obtain c where r: "r = Inr c" and off: "\<not> offset c > total_sectors c"
    by (cases r) (simp_all add: report_validated_def)
  from init r init_device_Inr [of w ctl O_RDONLY t c]
  have c: "offset c = offset ctl" "length_c c = length_c ctl" "verbose c = verbose ctl"
    by auto
  have quiet: "printed_zones t = []"
    using init_device_quiet [of w ctl O_RDONLY] init by simp
  note run = blkzone_report_validated [OF init [unfolded r] off, unfolded c]
  show "printed_zones (fst (blkzone_report w ctl)) =
           map format_zone
             (takeWhile (\<lambda>z. len z \<noteq> 0 \<and> lookups_inside z)
                (take (unat (nr_zones zi))
                   (take (unat (ucast (report_length (length_c ctl)) :: u32)) (zones zi))))"
    by (simp add: run Let_def quiet alloc ans)
  show "snd (blkzone_report w ctl) =
           snd (report_output (verbose ctl)
                  (zi\<lparr>zones := take (unat (ucast (report_length (length_c ctl)) :: u32))
                                   (zones zi)\<rparr>))"
    by (simp add: run Let_def alloc ans)
qed

lemma report_output_result:
  "snd (report_output v zi) = Inr 0 \<or> snd (report_output v zi) = Inl ReadPastBuffer
   \<or> snd (report_output v zi) = Inl ReadPastTable"
  using report_loop_result_cases [of "zones zi" "unat (nr_zones zi)" 0]
  by (auto simp: report_output_def)

lemma report_output_table_fault:
  "snd (report_output v zi) = Inl ReadPastTable \<longleftrightarrow>
     (\<exists>z \<in> set (takeWhile (\<lambda>z. len z \<noteq> 0) (take (unat (nr_zones zi)) (zones zi))).
        \<not> lookups_inside z)"
  using report_loop_table_fault [of "zones zi" "unat (nr_zones zi)" 0]
  by (cases "snd (report_loop (zones zi) (unat (nr_zones zi)) 0)")
    (auto simp: report_output_def)



lemma report_answered:
  assumes req: "report_requests (fst (blkzone_report w ctl)) = [(s, n)]"
    and ans: "ioctl_blkreportzone w s n = Some zi"
  shows "printed_zones (fst (blkzone_report w ctl)) =
           map format_zone
             (takeWhile (\<lambda>z. len z \<noteq> 0 \<and> lookups_inside z)
                (take (unat (nr_zones zi)) (take (unat n) (zones zi))))"
    and "snd (blkzone_report w ctl) =
           snd (report_output (verbose ctl) (zi\<lparr>zones := take (unat n) (zones zi)\<rparr>))"
proof -
  have v: "report_validated w ctl"
  proof (rule ccontr)
    assume "\<not> report_validated w ctl"
    then have "report_requests (fst (blkzone_report w ctl)) = []"
      by (simp add: not_validated_quiet)
    with req show False
      by simp
  qed
  from req validated_run(3) [OF v]
  have alloc: "xmalloc_ok w (sizeof_blk_zone_report + report_length (length_c ctl) * sizeof_blk_zone)"
    and s: "s = offset ctl" and n: "n = ucast (report_length (length_c ctl))"
    by (auto split: if_splits)
  note run = validated_answered [OF v alloc ans [unfolded s n]]
  from run(1) n show "printed_zones (fst (blkzone_report w ctl)) =
           map format_zone
             (takeWhile (\<lambda>z. len z \<noteq> 0 \<and> lookups_inside z)
                (take (unat (nr_zones zi)) (take (unat n) (zones zi))))"
    by simp
  from run(2) n show "snd (blkzone_report w ctl) =
           snd (report_output (verbose ctl) (zi\<lparr>zones := take (unat n) (zones zi)\<rparr>))"
    by simp
qed

lemma init_device_length:
  "init_device w (ctl\<lparr>length_c := l\<rparr>) mode =
     (fst (init_device w ctl mode),
      case snd (init_device w ctl mode) of Inl e \<Rightarrow> Inl e | Inr c \<Rightarrow> Inr (c\<lparr>length_c := l\<rparr>))"
  by (simp add: init_device_def split: option.splits)

lemma report_validated_length [simp]:
  "report_validated w (ctl\<lparr>length_c := l\<rparr>) = report_validated w ctl"
  by (simp add: report_validated_def init_device_length split: prod.splits sum.splits)

lemma not_validated_length:
  assumes "\<not> report_validated w ctl"
  shows "blkzone_report w (ctl\<lparr>length_c := l\<rparr>) = blkzone_report w ctl"
proof -
  obtain t r where init: "init_device w ctl O_RDONLY = (t, r)"
    by (cases "init_device w ctl O_RDONLY")
  show ?thesis
  proof (cases r)
    case (Inl e)
    with init have "init_device w (ctl\<lparr>length_c := l\<rparr>) O_RDONLY = (t, Inl e)"
      by (simp add: init_device_length)
    with init Inl show ?thesis
      by (simp add: blkzone_report_init_failed)
  next
    case (Inr c)
    with init assms have off: "offset c > total_sectors c"
      by (simp add: report_validated_def)
    from init Inr have "init_device w (ctl\<lparr>length_c := l\<rparr>) O_RDONLY = (t, Inr (c\<lparr>length_c := l\<rparr>))"
      by (simp add: init_device_length)
    with init Inr off show ?thesis
      by (simp add: blkzone_report_offset_failed)
  qed
qed

lemma no_warning_init [simp]:
  "filter (\<lambda>e. \<not> is_warning e) (fst (init_device w ctl mode)) = fst (init_device w ctl mode)"
  by (simp add: init_device_def split: option.splits)

lemma no_warning_output [simp]:
  "filter (\<lambda>e. \<not> is_warning e) (fst (report_output v zi)) = fst (report_output v zi)"
  by (simp add: report_output_def report_loop_events filter_map comp_def split: sum.splits)

lemma report_length_over: "l > 65536 \<Longrightarrow> report_length l = 65536"
  by (auto simp: report_length_def MAX_REPORT_LEN_def Let_def word_less_nat_alt)

lemma report_length_max: "report_length 65536 = 65536"
  by (simp add: report_length_def MAX_REPORT_LEN_def)

lemma report_length_under:
  assumes "l \<le> 65536"
  shows "report_length l = (if l = 0 then 1 else l)"
proof -
  from assms have "\<not> l > 65536"
    by (rule leD)
  then show ?thesis
    by (simp add: report_length_def MAX_REPORT_LEN_def Let_def word_less_1)
qed

lemma validated_length_clamped:
  assumes v: "report_validated w ctl" and l: "l > 65536"
  shows "snd (blkzone_report w (ctl\<lparr>length_c := l\<rparr>))
           = snd (blkzone_report w (ctl\<lparr>length_c := 65536\<rparr>))"
    and "filter (\<lambda>e. \<not> is_warning e) (fst (blkzone_report w (ctl\<lparr>length_c := l\<rparr>)))
           = fst (blkzone_report w (ctl\<lparr>length_c := 65536\<rparr>))"
proof -
  obtain t r where init: "init_device w ctl O_RDONLY = (t, r)"
    by (cases "init_device w ctl O_RDONLY")
  with v obtain c where r: "r = Inr c" and off: "\<not> offset c > total_sectors c"
    by (cases r) (simp_all add: report_validated_def)
  have t: "filter (\<lambda>e. \<not> is_warning e) t = t"
    using no_warning_init [of w ctl O_RDONLY] init by simp
  have i1: "init_device w (ctl\<lparr>length_c := l\<rparr>) O_RDONLY = (t, Inr (c\<lparr>length_c := l\<rparr>))"
    and i2: "init_device w (ctl\<lparr>length_c := 65536\<rparr>) O_RDONLY = (t, Inr (c\<lparr>length_c := 65536\<rparr>))"
    using init r by (simp_all add: init_device_length)
  from off have o1: "\<not> offset (c\<lparr>length_c := l\<rparr>) > total_sectors (c\<lparr>length_c := l\<rparr>)"
    and o2: "\<not> offset (c\<lparr>length_c := 65536\<rparr>) > total_sectors (c\<lparr>length_c := 65536\<rparr>)"
    by simp_all
  note r1 = blkzone_report_validated [OF i1 o1]
  note r2 = blkzone_report_validated [OF i2 o2]
  from l show "snd (blkzone_report w (ctl\<lparr>length_c := l\<rparr>))
           = snd (blkzone_report w (ctl\<lparr>length_c := 65536\<rparr>))"
    by (simp add: r1 r2 Let_def report_length_over report_length_max MAX_REPORT_LEN_val
        split: option.splits)
  from l show "filter (\<lambda>e. \<not> is_warning e) (fst (blkzone_report w (ctl\<lparr>length_c := l\<rparr>)))
           = fst (blkzone_report w (ctl\<lparr>length_c := 65536\<rparr>))"
    by (simp add: r1 r2 Let_def report_length_over report_length_max MAX_REPORT_LEN_val t
        split: option.splits)
qed

lemma report_length_zero_as_one:
  "blkzone_report w (ctl\<lparr>length_c := 0\<rparr>) = blkzone_report w (ctl\<lparr>length_c := 1\<rparr>)"
proof (cases "report_validated w ctl")
  case False
  then show ?thesis
    by (simp add: not_validated_length)
next
  case True
  obtain t r where init: "init_device w ctl O_RDONLY = (t, r)"
    by (cases "init_device w ctl O_RDONLY")
  with True obtain c where r: "r = Inr c" and off: "\<not> offset c > total_sectors c"
    by (cases r) (simp_all add: report_validated_def)
  have i0: "init_device w (ctl\<lparr>length_c := 0\<rparr>) O_RDONLY = (t, Inr (c\<lparr>length_c := 0\<rparr>))"
    and i1: "init_device w (ctl\<lparr>length_c := 1\<rparr>) O_RDONLY = (t, Inr (c\<lparr>length_c := 1\<rparr>))"
    using init r by (simp_all add: init_device_length)
  from off have o0: "\<not> offset (c\<lparr>length_c := 0\<rparr>) > total_sectors (c\<lparr>length_c := 0\<rparr>)"
    and o1: "\<not> offset (c\<lparr>length_c := 1\<rparr>) > total_sectors (c\<lparr>length_c := 1\<rparr>)"
    by simp_all
  show ?thesis
    by (simp add: blkzone_report_validated [OF i0 o0] blkzone_report_validated [OF i1 o1]
        report_length_under MAX_REPORT_LEN_val Let_def split: option.splits)
qed

subsection \<open>The table lookups\<close>

text \<open>The subscript of \<^verbatim>\<open>condition_str\<close> is the condition code masked with 15, at most 15;
  the table ends at subscript 14.\<close>

lemma condition_str_length: "length condition_str = 15"
  by (simp add: condition_str_def)

lemma type_text_length: "length type_text = 4"
  by (simp add: type_text_def)

lemma unat_ucast_u8_u64: "unat (ucast x :: u64) = unat x" for x :: u8
proof -
  have "unat x < 2 ^ 8"
    using unsigned_less [of x] by simp
  then have "unat x < 2 ^ 64"
    by simp
  then show ?thesis
    by (simp add: unsigned_ucast_eq take_bit_nat_eq_self)
qed

lemma unat_ucast_u8_u32: "unat (ucast x :: u32) = unat x" for x :: u8
proof -
  have "unat x < 2 ^ 8"
    using unsigned_less [of x] by simp
  then have "unat x < 2 ^ 32"
    by simp
  then show ?thesis
    by (simp add: unsigned_ucast_eq take_bit_nat_eq_self)
qed

lemma condition_index_eq: "condition_index c = ucast (c AND 15)"
  by (simp add: condition_index_def ARRAY_SIZE_def condition_str_length unsigned_and_eq)

lemma condition_index_le: "unat (condition_index c) \<le> 15"
proof -
  have "c AND 15 \<le> 15"
    by (rule word_and_le1)
  then have "unat (c AND 15) \<le> 15"
    by (simp add: word_le_nat_alt)
  then show ?thesis
    by (simp add: condition_index_eq unat_ucast_u8_u64)
qed

lemma condition_lookup_outside:
  "array_read condition_str (unat (condition_index c)) = None \<longleftrightarrow> c AND 15 = 15"
proof -
  have "unat (condition_index c) = unat (c AND 15)"
    by (simp add: condition_index_eq unat_ucast_u8_u64)
  moreover have "unat (c AND 15) \<le> 15"
    using condition_index_le [of c] calculation by simp
  moreover have "c AND 15 = 15 \<longleftrightarrow> unat (c AND 15) = 15"
    by (simp add: word_unat_eq_iff)
  ultimately show ?thesis
    by (auto simp: array_read_def condition_str_length)
qed

lemma type_lookup_inside:
  "l_type_text (format_zone z) \<noteq> None \<longleftrightarrow> unat (type z) \<le> 3"
  by (auto simp: format_zone_def array_read_def type_text_length type_index_def
      unat_ucast_u8_u32)

lemma lookups_inside_iff:
  "lookups_inside z \<longleftrightarrow> unat (type z) \<le> 3 \<and> cond z AND 15 \<noteq> 15"
proof -
  have "l_cond_str (format_zone z) = array_read condition_str (unat (condition_index (cond z)))"
    by (simp add: format_zone_def)
  then have "l_cond_str (format_zone z) \<noteq> None \<longleftrightarrow> cond z AND 15 \<noteq> 15"
    by (simp only: condition_lookup_outside)
  with type_lookup_inside [of z] show ?thesis
    by (simp only: lookups_inside_def) blast
qed

subsection \<open>Reading a run of the reset\<close>

text \<open>What a run of \<^verbatim>\<open>blkzone_reset\<close> is, case by case, and the test of line 230 for a zone
  size that is a power of two.\<close>

lemma chunk_sectors_quiet [simp]:
  "reset_ranges (fst (blkdev_chunk_sectors w d)) = []"
  "opens (fst (blkdev_chunk_sectors w d)) = []"
  by (simp_all add: blkdev_chunk_sectors_def Let_def split: option.splits)

lemma init_device_opens [simp]:
  "opens (fst (init_device w ctl mode)) = [mode]"
  by (simp add: init_device_def split: option.splits)

lemma blkzone_reset_no_zone_size:
  "snd (blkdev_chunk_sectors w (devname ctl)) = 0 \<Longrightarrow>
     blkzone_reset w ctl = (fst (blkdev_chunk_sectors w (devname ctl)), Inl UnableToDetermineZoneSize)"
  by (simp add: blkzone_reset_def split_beta)

lemma blkzone_reset_init_failed:
  "snd (blkdev_chunk_sectors w (devname ctl)) \<noteq> 0 \<Longrightarrow>
   init_device w ctl O_WRONLY = (t, Inl e) \<Longrightarrow>
     blkzone_reset w ctl = (fst (blkdev_chunk_sectors w (devname ctl)) @ t, Inl e)"
  by (simp add: blkzone_reset_def split_beta)

lemma blkzone_reset_opened:
  assumes "snd (blkdev_chunk_sectors w (devname ctl)) = zonesize" "zonesize \<noteq> 0"
    and "init_device w ctl O_WRONLY = (t, Inr c)"
  shows "blkzone_reset w ctl =
     (if offset c AND (zonesize - 1) \<noteq> 0 then
        (fst (blkdev_chunk_sectors w (devname ctl)) @ t, Inl ZoneNotAligned)
      else if offset c > total_sectors c then
        (fst (blkdev_chunk_sectors w (devname ctl)) @ t, Inl OffsetGreaterThanDeviceSize)
      else if \<not> ioctl_blkresetzone w (reset_range c zonesize) then
        (fst (blkdev_chunk_sectors w (devname ctl)) @ t
           @ [Ioctl_BLKRESETZONE (reset_range c zonesize)], Inl ResetZoneIoctlFailed)
      else
        (fst (blkdev_chunk_sectors w (devname ctl)) @ t
           @ [Ioctl_BLKRESETZONE (reset_range c zonesize)]
           @ (if verbose c
              then [Printf_reset (devname c) (offset c) (nr_sectors (reset_range c zonesize))]
              else [])
           @ [Close], Inr 0))"
  using assms by (simp add: blkzone_reset_def split_beta Let_def)

lemma mask_test_is_mod:
  fixes x :: u64
  assumes "k < 64"
  shows "(x AND (2 ^ k - 1) = 0) \<longleftrightarrow> unat x mod unat (2 ^ k :: u64) = 0"
proof -
  from assms have nz: "(2 ^ k :: u64) \<noteq> 0"
    by simp
  have pos: "(0 :: u64) < 2 ^ k"
    by (rule iffD1 [OF word_neq_0_conv nz])
  have "x AND (2 ^ k - 1) = x mod 2 ^ k"
    by (simp add: word_mod_2p_is_mask [OF pos] mask_eq_decr_exp)
  then have "(x AND (2 ^ k - 1) = 0) \<longleftrightarrow> unat (x mod 2 ^ k) = 0"
    by (simp add: unat_0_iff)
  then show ?thesis
    by (simp add: unat_mod_distrib)
qed

lemma reset_issued:
  assumes "za \<in> set (reset_ranges (fst (blkzone_reset w ctl)))"
  shows "\<exists>t c. init_device w ctl O_WRONLY = (t, Inr c)
           \<and> snd (blkdev_chunk_sectors w (devname ctl)) \<noteq> 0
           \<and> offset c AND (snd (blkdev_chunk_sectors w (devname ctl)) - 1) = 0
           \<and> \<not> offset c > total_sectors c
           \<and> za = reset_range c (snd (blkdev_chunk_sectors w (devname ctl)))"
proof (cases "snd (blkdev_chunk_sectors w (devname ctl)) = 0")
  case True
  with assms show ?thesis
    by (simp add: blkzone_reset_no_zone_size)
next
  case False
  obtain t r where init: "init_device w ctl O_WRONLY = (t, r)"
    by (cases "init_device w ctl O_WRONLY")
  have quiet: "reset_ranges t = []"
    using init_device_quiet(5) [of w ctl O_WRONLY] init by simp
  show ?thesis
  proof (cases r)
    case (Inl e)
    with assms False init quiet show ?thesis
      by (simp add: blkzone_reset_init_failed)
  next
    case (Inr c)
    with assms False init quiet show ?thesis
      by (simp add: blkzone_reset_opened [OF refl False] split: if_splits)
  qed
qed

lemma reset_validated_issues:
  assumes "reset_validated w ctl"
  shows "\<exists>t c. init_device w ctl O_WRONLY = (t, Inr c)
           \<and> reset_ranges (fst (blkzone_reset w ctl))
               = [reset_range c (snd (blkdev_chunk_sectors w (devname ctl)))]"
proof -
  from assms have nz: "snd (blkdev_chunk_sectors w (devname ctl)) \<noteq> 0"
    by (simp add: reset_validated_def split_beta)
  obtain t r where init: "init_device w ctl O_WRONLY = (t, r)"
    by (cases "init_device w ctl O_WRONLY")
  have quiet: "reset_ranges t = []"
    using init_device_quiet(5) [of w ctl O_WRONLY] init by simp
  from assms init obtain c where r: "r = Inr c"
    and ok: "offset c AND (snd (blkdev_chunk_sectors w (devname ctl)) - 1) = 0"
      "\<not> offset c > total_sectors c"
    by (cases r) (simp_all add: reset_validated_def split_beta)
  from init r ok quiet have "reset_ranges (fst (blkzone_reset w ctl))
      = [reset_range c (snd (blkdev_chunk_sectors w (devname ctl)))]"
    by (simp add: blkzone_reset_opened [OF refl nz])
  with init r show ?thesis
    by blast
qed

lemma reset_issued_validated:
  "reset_ranges (fst (blkzone_reset w ctl)) \<noteq> [] \<longleftrightarrow> reset_validated w ctl"
proof
  assume "reset_ranges (fst (blkzone_reset w ctl)) \<noteq> []"
  then obtain za where "za \<in> set (reset_ranges (fst (blkzone_reset w ctl)))"
    by (cases "reset_ranges (fst (blkzone_reset w ctl))") auto
  from reset_issued [OF this] show "reset_validated w ctl"
    by (auto simp: reset_validated_def split_beta)
next
  assume "reset_validated w ctl"
  from reset_validated_issues [OF this] show "reset_ranges (fst (blkzone_reset w ctl)) \<noteq> []"
    by auto
qed

text \<open>The sum and the product of line 240 are those of the natural numbers as long as
  they stay below \<open>2 ^ 64\<close>.\<close>

lemma reset_sum_exact:
  fixes off len zonesize total_s :: u64
  assumes "unat off + unat len * unat zonesize < 2 ^ 64"
  shows "off + len * zonesize > total_s \<longleftrightarrow> unat off + unat len * unat zonesize > unat total_s"
proof -
  from assms have "unat len * unat zonesize < 2 ^ 64"
    by simp
  then have prod: "unat (len * zonesize) = unat len * unat zonesize"
    by (simp add: unat_word_ariths)
  with assms have "unat (off + len * zonesize) = unat off + unat len * unat zonesize"
    by (simp add: unat_word_ariths)
  then show ?thesis
    by (simp add: word_less_nat_alt)
qed

lemma init_device_errors:
  "init_device w ctl mode = (t, Inl e) \<Longrightarrow>
     e = CannotOpen \<or> e = StatFailed \<or> e = NotABlockDevice \<or> e = GetSectorsFailed
     \<or> e = BlkSszGetFailed"
  by (auto simp: init_device_def split: if_splits option.splits)

subsection \<open>Runs on the example devices\<close>

text \<open>The runs the later examples refer to, computed from the definitions.\<close>

lemmas example_defs =
  example_world_def example_ctl_def example_report_def example_zone_def init_device_def
  MAX_REPORT_LEN_def sizeof_blk_zone_report_def sizeof_blk_zone_def
  example_world_answering_def

lemmas format_defs =
  format_zone_def condition_index_def type_index_def array_read_def ARRAY_SIZE_def
  condition_str_def type_text_def

lemma example_ctl_fields:
  "devname (example_ctl off n) = ''/dev/sda1''"
  "offset (example_ctl off n) = off"
  "length_c (example_ctl off n) = n"
  "verbose (example_ctl off n) = False"
  by (simp_all add: example_ctl_def)

lemma example_reset_answers:
  "ioctl_blkresetzone example_world za"
  "ioctl_blkresetzone npo2_world za"
  by (simp_all add: example_world_def npo2_world_def)

lemma example_sectors: "blkdev_get_sectors example_world = Some 1000000"
  by (simp add: example_world_def)

lemma example_chunk_sectors:
  "blkdev_chunk_sectors example_world ''/dev/sda1'' =
     ([Sysfs_devname_to_devno ''/dev/sda1'', Sysfs_init 0x800,
       Sysfs_read_u64 0x800 ''queue/chunk_sectors'', Sysfs_deinit], 65536)"
  by (simp add: blkdev_chunk_sectors_def example_world_def major_def minor_def makedev_def)

lemma npo2_chunk_sectors:
  "blkdev_chunk_sectors npo2_world ''/dev/sda1'' =
     ([Sysfs_devname_to_devno ''/dev/sda1'', Sysfs_init 0x800,
       Sysfs_read_u64 0x800 ''queue/chunk_sectors'', Sysfs_deinit], 196608)"
  by (simp add: blkdev_chunk_sectors_def npo2_world_def example_world_def major_def minor_def
      makedev_def)

lemma no_sysfs_chunk_sectors:
  "blkdev_chunk_sectors no_sysfs_world ''/dev/sda1'' =
     ([Sysfs_devname_to_devno ''/dev/sda1'', Sysfs_init 0x800], 0)"
  by (simp add: blkdev_chunk_sectors_def no_sysfs_world_def example_world_def major_def
      minor_def makedev_def)

lemma example_init:
  "init_device example_world (example_ctl off n) mode =
     ([Open_dev ''/dev/sda1'' mode, Fstat, Blkdev_get_sectors, Blkdev_get_sector_size],
      Inr \<lparr>devname = ''/dev/sda1'', total_sectors = 1000000, secsize = 512, offset = off,
           length_c = n, verbose = False\<rparr>)"
  by (simp add: init_device_def example_world_def example_ctl_def)

lemma example_report_one_line:
  "blkzone_report example_world (example_ctl 0 0) =
     ([Open_dev ''/dev/sda1'' O_RDONLY, Fstat, Blkdev_get_sectors, Blkdev_get_sector_size,
       Xmalloc 80, Ioctl_BLKREPORTZONE 0 1, Printf_returned 1,
       Printf_zone (format_zone (example_zone 0)), Free, Close], Inr 0)"
  by (simp add: blkzone_report_def example_defs report_loop.simps lookups_inside_def format_defs)

lemma example_report_2:
  "report_requests (fst (blkzone_report example_world (example_ctl 0 2))) = [(0, 2)]"
  "allocations (fst (blkzone_report example_world (example_ctl 0 2))) = [144]"
  "printed_zones (fst (blkzone_report example_world (example_ctl 0 2))) =
     [format_zone (example_zone 0), format_zone (example_zone 1)]"
  by (simp_all add: blkzone_report_def example_defs report_loop.simps lookups_inside_def
      format_defs)

lemma example_report_default_len:
  "blkzone_report example_world (example_ctl 0 4096) =
     ([Open_dev ''/dev/sda1'' O_RDONLY, Fstat, Blkdev_get_sectors, Blkdev_get_sector_size,
       Xmalloc 262160, Ioctl_BLKREPORTZONE 0 4096, Printf_returned 3,
       Printf_zone (format_zone (example_zone 0)), Printf_zone (format_zone (example_zone 1)),
       Printf_zone (format_zone (example_zone 2)), Free, Close], Inr 0)"
  by (simp add: blkzone_report_def example_defs report_loop.simps lookups_inside_def format_defs)


lemma offline_answer_report:
  "blkzone_report (example_world_answering offline_answer) (example_ctl 0 1) =
     ([Open_dev ''/dev/sda1'' O_RDONLY, Fstat, Blkdev_get_sectors, Blkdev_get_sector_size,
       Xmalloc 80, Ioctl_BLKREPORTZONE 0 1, Printf_returned 1], Inl ReadPastTable)"
  by (simp add: blkzone_report_def example_defs offline_answer_def report_loop.simps
      lookups_inside_def format_defs)

lemma odd_type_answer_report:
  "blkzone_report (example_world_answering odd_type_answer) (example_ctl 0 2) =
     ([Open_dev ''/dev/sda1'' O_RDONLY, Fstat, Blkdev_get_sectors, Blkdev_get_sector_size,
       Xmalloc 144, Ioctl_BLKREPORTZONE 0 2, Printf_returned 2,
       Printf_zone (format_zone (example_zone 0))], Inl ReadPastTable)"
  by (simp add: blkzone_report_def example_defs odd_type_answer_def report_loop.simps
      lookups_inside_def format_defs)



lemma example_reset_last_zone:
  "blkzone_reset example_world (example_ctl 983040 1) =
     ([Sysfs_devname_to_devno ''/dev/sda1'', Sysfs_init 0x800,
       Sysfs_read_u64 0x800 ''queue/chunk_sectors'', Sysfs_deinit,
       Open_dev ''/dev/sda1'' O_WRONLY, Fstat, Blkdev_get_sectors, Blkdev_get_sector_size,
       Ioctl_BLKRESETZONE \<lparr>blk_zone_range.sector = 983040, nr_sectors = 999999\<rparr>, Close],
      Inr 0)"
  by (simp add: blkzone_reset_def example_chunk_sectors example_init reset_range_def
      example_ctl_fields example_reset_answers)

lemma example_reset_validated:
  "reset_validated example_world (example_ctl 983040 1)"
  by (simp add: reset_validated_def example_chunk_sectors example_init example_ctl_fields)

lemma example_reset_first_zone:
  "blkzone_reset example_world (example_ctl 0 1) =
     ([Sysfs_devname_to_devno ''/dev/sda1'', Sysfs_init 0x800,
       Sysfs_read_u64 0x800 ''queue/chunk_sectors'', Sysfs_deinit,
       Open_dev ''/dev/sda1'' O_WRONLY, Fstat, Blkdev_get_sectors, Blkdev_get_sector_size,
       Ioctl_BLKRESETZONE \<lparr>blk_zone_range.sector = 0, nr_sectors = 65536\<rparr>, Close],
      Inr 0)"
  by (simp add: blkzone_reset_def example_chunk_sectors example_init reset_range_def
      example_ctl_fields example_reset_answers)

lemma example_reset_misaligned:
  "blkzone_reset example_world (example_ctl 5 1) =
     ([Sysfs_devname_to_devno ''/dev/sda1'', Sysfs_init 0x800,
       Sysfs_read_u64 0x800 ''queue/chunk_sectors'', Sysfs_deinit,
       Open_dev ''/dev/sda1'' O_WRONLY, Fstat, Blkdev_get_sectors, Blkdev_get_sector_size],
      Inl ZoneNotAligned)"
  by (simp add: blkzone_reset_def example_chunk_sectors example_init example_ctl_fields)

lemma example_reset_beyond:
  "blkzone_reset example_world (example_ctl 1048576 1) =
     ([Sysfs_devname_to_devno ''/dev/sda1'', Sysfs_init 0x800,
       Sysfs_read_u64 0x800 ''queue/chunk_sectors'', Sysfs_deinit,
       Open_dev ''/dev/sda1'' O_WRONLY, Fstat, Blkdev_get_sectors, Blkdev_get_sector_size],
      Inl OffsetGreaterThanDeviceSize)"
  by (simp add: blkzone_reset_def example_chunk_sectors example_init example_ctl_fields)

lemma no_sysfs_reset:
  "blkzone_reset no_sysfs_world (example_ctl 0 1) =
     ([Sysfs_devname_to_devno ''/dev/sda1'', Sysfs_init 0x800], Inl UnableToDetermineZoneSize)"
  by (simp add: blkzone_reset_def no_sysfs_chunk_sectors example_ctl_fields)

lemma npo2_init:
  "init_device npo2_world (example_ctl off n) mode =
     ([Open_dev ''/dev/sda1'' mode, Fstat, Blkdev_get_sectors, Blkdev_get_sector_size],
      Inr \<lparr>devname = ''/dev/sda1'', total_sectors = 1000000, secsize = 512, offset = off,
           length_c = n, verbose = False\<rparr>)"
  by (simp add: init_device_def npo2_world_def example_world_def example_ctl_def)

lemma npo2_reset_second_zone:
  "blkzone_reset npo2_world (example_ctl 196608 1) =
     ([Sysfs_devname_to_devno ''/dev/sda1'', Sysfs_init 0x800,
       Sysfs_read_u64 0x800 ''queue/chunk_sectors'', Sysfs_deinit,
       Open_dev ''/dev/sda1'' O_WRONLY, Fstat, Blkdev_get_sectors, Blkdev_get_sector_size],
      Inl ZoneNotAligned)"
  by (simp add: blkzone_reset_def npo2_chunk_sectors npo2_init example_ctl_fields)

lemma npo2_reset_inside_zone:
  "blkzone_reset npo2_world (example_ctl 65536 1) =
     ([Sysfs_devname_to_devno ''/dev/sda1'', Sysfs_init 0x800,
       Sysfs_read_u64 0x800 ''queue/chunk_sectors'', Sysfs_deinit,
       Open_dev ''/dev/sda1'' O_WRONLY, Fstat, Blkdev_get_sectors, Blkdev_get_sector_size,
       Ioctl_BLKRESETZONE \<lparr>blk_zone_range.sector = 65536, nr_sectors = 196608\<rparr>, Close],
      Inr 0)"
  by (simp add: blkzone_reset_def npo2_chunk_sectors npo2_init reset_range_def
      example_ctl_fields example_reset_answers)

section \<open>The claims\<close>

text \<open>
  C1. The subscript of the condition mnemonic is \<^verbatim>\<open>cond & ARRAY_SIZE(condition_str)\<close>, and
  the table has 15 entries, not 16: for the condition code 15 (an offline zone) the
  subscript is 15, one past the last entry, and the lookup reads past the end of the
  table. The mnemonic of an offline zone is read from outside the table, and a report of
  one offline zone ends in that read, before the line of the zone is printed.
\<close>

theorem condition_lookup_past_table:
  "length condition_str = 15
   \<and> unat (condition_index 15) = 15
   \<and> array_read condition_str (unat (condition_index 15)) = None
   \<and> l_cond_str (format_zone ((example_zone 0)\<lparr>cond := 15\<rparr>)) = None
   \<and> snd (blkzone_report (example_world_answering offline_answer) (example_ctl 0 1))
       = Inl ReadPastTable
   \<and> printed_zones
         (fst (blkzone_report (example_world_answering offline_answer) (example_ctl 0 1)))
       = []"
  by (simp add: offline_answer_report format_defs example_zone_def)

text \<open>
  C2. On the device of 1,000,000 sectors in zones of 65536 sectors, a reset of one zone
  at sector 983040 (the last, short zone) passes every validation and hands the device
  the range of 999999 sectors from sector 983040, which ends at sector 1983039, beyond
  the 1,000,000 sectors of the device: the clamp of line 241 does not keep the range
  inside the device.
\<close>

theorem reset_range_beyond_device:
  "blkdev_get_sectors example_world = Some 1000000
   \<and> reset_validated example_world (example_ctl 983040 1)
   \<and> snd (blkzone_reset example_world (example_ctl 983040 1)) = Inr 0
   \<and> reset_ranges (fst (blkzone_reset example_world (example_ctl 983040 1)))
       = [\<lparr>blk_zone_range.sector = 983040, nr_sectors = 999999\<rparr>]
   \<and> unat (983040 :: u64) + unat (999999 :: u64) > unat (1000000 :: u64)"
  by (simp add: example_reset_last_zone example_sectors example_reset_validated)

text \<open>
  C3. Whenever a reset passes its validation and \<^verbatim>\<open>offset + length * zonesize\<close>, as the
  program computes it in 64-bit unsigned arithmetic, exceeds the total sector count of
  the device, the one range handed to the device starts at the offset and its sector
  count is the total sector count minus \<^verbatim>\<open>length\<close>, the zone count asked for.
\<close>

theorem reset_clamp_subtracts_zone_count:
  assumes v: "reset_validated w ctl"
    and sectors: "blkdev_get_sectors w = Some total_s"
    and over: "offset ctl + length_c ctl * snd (blkdev_chunk_sectors w (devname ctl)) > total_s"
  shows "reset_ranges (fst (blkzone_reset w ctl))
           = [\<lparr>blk_zone_range.sector = offset ctl, nr_sectors = total_s - length_c ctl\<rparr>]"
proof -
  from reset_validated_issues [OF v] obtain t c
    where init: "init_device w ctl O_WRONLY = (t, Inr c)"
      and za: "reset_ranges (fst (blkzone_reset w ctl))
                 = [reset_range c (snd (blkdev_chunk_sectors w (devname ctl)))]"
    by blast
  from init_device_Inr [OF init] sectors
  have "offset c = offset ctl" "length_c c = length_c ctl" "total_sectors c = total_s"
    by auto
  with over za show ?thesis
    by (simp add: reset_range_def)
qed

theorem reset_clamp_subtracts_zone_count_witness:
  "reset_validated example_world (example_ctl 983040 1)
   \<and> blkdev_get_sectors example_world = Some 1000000
   \<and> 983040 + 1 * snd (blkdev_chunk_sectors example_world ''/dev/sda1'') > (1000000 :: u64)
   \<and> reset_ranges (fst (blkzone_reset example_world (example_ctl 983040 1)))
       = [\<lparr>blk_zone_range.sector = 983040, nr_sectors = 1000000 - 1\<rparr>]
   \<and> (1000000 - 1 :: u64) \<noteq> 1000000 - 1 * 65536
   \<and> (1000000 - 1 :: u64) \<noteq> 1000000 - 983040"
proof -
  have h1: "reset_validated example_world (example_ctl 983040 1)"
    by (rule example_reset_validated)
  have h2: "blkdev_get_sectors example_world = Some 1000000"
    by (rule example_sectors)
  have h3: "offset (example_ctl 983040 1)
      + length_c (example_ctl 983040 1)
        * snd (blkdev_chunk_sectors example_world (devname (example_ctl 983040 1)))
      > 1000000"
    by (simp add: example_ctl_fields example_chunk_sectors)
  from reset_clamp_subtracts_zone_count [OF h1 h2 h3] h1 h2 show ?thesis
    by (simp add: example_ctl_fields example_chunk_sectors)
qed

text \<open>
  C4. With a requested length of 0 the report operation asks the device for one zone
  and prints one line; with the length 4096, the value of \<^verbatim>\<open>DEF_REPORT_LEN\<close>, it asks for
  4096 zones and prints the three zones the example device has. The two runs differ.
\<close>

theorem report_length_zero_requests_one_zone:
  "DEF_REPORT_LEN = 4096
   \<and> report_requests (fst (blkzone_report example_world (example_ctl 0 0))) = [(0, 1)]
   \<and> report_requests (fst (blkzone_report example_world (example_ctl 0 4096))) = [(0, 4096)]
   \<and> length (printed_zones (fst (blkzone_report example_world (example_ctl 0 0)))) = 1
   \<and> length (printed_zones (fst (blkzone_report example_world (example_ctl 0 4096)))) = 3"
  by (simp add: example_report_one_line example_report_default_len DEF_REPORT_LEN_val)

text \<open>
  C5, as amended. For every determined zone granularity \<open>zonesize > 0\<close> and every
  offset, once the device has been opened, the reset operation fails with the
  misaligned-offset error if and only if \<^verbatim>\<open>offset & (zonesize - 1)\<close> is not zero; when
  \<open>zonesize\<close> is a power of two, that is if and only if \<open>offset mod zonesize\<close> is not zero;
  and on that failure no reset is issued.
\<close>

theorem reset_alignment_check:
  assumes zs: "snd (blkdev_chunk_sectors w (devname ctl)) = zonesize" "zonesize \<noteq> 0"
    and init: "snd (init_device w ctl O_WRONLY) = Inr c"
  shows "(snd (blkzone_reset w ctl) = Inl ZoneNotAligned \<longleftrightarrow> offset ctl AND (zonesize - 1) \<noteq> 0)
       \<and> (k < 64 \<and> zonesize = 2 ^ k \<longrightarrow>
            (snd (blkzone_reset w ctl) = Inl ZoneNotAligned
               \<longleftrightarrow> unat (offset ctl) mod unat zonesize \<noteq> 0))
       \<and> (snd (blkzone_reset w ctl) = Inl ZoneNotAligned \<longrightarrow>
            reset_ranges (fst (blkzone_reset w ctl)) = [])"
proof -
  obtain t where i: "init_device w ctl O_WRONLY = (t, Inr c)"
    using init by (cases "init_device w ctl O_WRONLY") simp
  from init_device_Inr [OF i] have off: "offset c = offset ctl"
    by auto
  have quiet: "reset_ranges t = []"
    using init_device_quiet(5) [of w ctl O_WRONLY] i by simp
  note run = blkzone_reset_opened [OF zs i, unfolded off]
  have mask: "snd (blkzone_reset w ctl) = Inl ZoneNotAligned \<longleftrightarrow> offset ctl AND (zonesize - 1) \<noteq> 0"
    by (simp add: run)
  moreover have "snd (blkzone_reset w ctl) = Inl ZoneNotAligned \<longrightarrow>
      reset_ranges (fst (blkzone_reset w ctl)) = []"
    by (simp add: run quiet)
  moreover have "k < 64 \<and> zonesize = 2 ^ k \<longrightarrow>
      (snd (blkzone_reset w ctl) = Inl ZoneNotAligned \<longleftrightarrow> unat (offset ctl) mod unat zonesize \<noteq> 0)"
    using mask mask_test_is_mod [of k "offset ctl"] by auto
  ultimately show ?thesis
    by blast
qed

theorem reset_alignment_check_witness:
  "snd (blkdev_chunk_sectors example_world (devname (example_ctl 5 1))) = 65536
   \<and> (65536 :: u64) \<noteq> 0
   \<and> snd (init_device example_world (example_ctl 5 1) O_WRONLY)
       = Inr \<lparr>devname = ''/dev/sda1'', total_sectors = 1000000, secsize = 512, offset = 5,
              length_c = 1, verbose = False\<rparr>
   \<and> (16 :: nat) < 64 \<and> (65536 :: u64) = 2 ^ 16
   \<and> unat (5 :: u64) mod unat (65536 :: u64) \<noteq> 0
   \<and> snd (blkzone_reset example_world (example_ctl 5 1)) = Inl ZoneNotAligned
   \<and> reset_ranges (fst (blkzone_reset example_world (example_ctl 5 1))) = []"
proof -
  have h1: "snd (blkdev_chunk_sectors example_world (devname (example_ctl 5 1))) = 65536"
    by (simp add: example_ctl_fields example_chunk_sectors)
  have h2: "(65536 :: u64) \<noteq> 0"
    by simp
  have h3: "snd (init_device example_world (example_ctl 5 1) O_WRONLY)
       = Inr \<lparr>devname = ''/dev/sda1'', total_sectors = 1000000, secsize = 512, offset = 5,
              length_c = 1, verbose = False\<rparr>"
    by (simp add: example_init)
  have h4: "(16 :: nat) < 64 \<and> (65536 :: u64) = 2 ^ 16"
    by simp
  have h5: "unat (offset (example_ctl 5 1)) mod unat (65536 :: u64) \<noteq> 0"
    by (simp add: example_ctl_fields)
  from reset_alignment_check [OF h1 h2 h3, of 16] h4 h5
  have "snd (blkzone_reset example_world (example_ctl 5 1)) = Inl ZoneNotAligned
      \<and> reset_ranges (fst (blkzone_reset example_world (example_ctl 5 1))) = []"
    by blast
  with h1 h2 h3 h5 show ?thesis
    by (simp add: example_ctl_fields)
qed

theorem reset_alignment_counterexample:
  "snd (blkdev_chunk_sectors npo2_world (devname (example_ctl 196608 1))) = 196608
   \<and> unat (196608 :: u64) mod unat (196608 :: u64) = 0
   \<and> snd (blkzone_reset npo2_world (example_ctl 196608 1)) = Inl ZoneNotAligned
   \<and> unat (65536 :: u64) mod unat (196608 :: u64) \<noteq> 0
   \<and> snd (blkzone_reset npo2_world (example_ctl 65536 1)) = Inr 0"
  by (simp add: example_ctl_fields npo2_chunk_sectors npo2_reset_second_zone
      npo2_reset_inside_zone)



text \<open>
  C7. A report asked for more than 65536 zones returns what the report asked for exactly
  65536 zones returns, and does what that one does (the same calls, the same request to
  the device, the same output) but for the warning: it emits the one warning, of the
  limit 65536, once it has opened the device and accepted the offset. A report asked for
  at most 65536 zones emits no warning, and once the device is opened, the offset
  accepted and the buffer allocated, it makes its request for the length asked (for one
  zone when the length is 0): it has no exit on account of the length.
\<close>

theorem report_length_limited:
  "(l > 65536 \<longrightarrow>
      snd (blkzone_report w (ctl\<lparr>length_c := l\<rparr>))
        = snd (blkzone_report w (ctl\<lparr>length_c := 65536\<rparr>))
    \<and> filter (\<lambda>e. \<not> is_warning e) (fst (blkzone_report w (ctl\<lparr>length_c := l\<rparr>)))
        = fst (blkzone_report w (ctl\<lparr>length_c := 65536\<rparr>))
    \<and> warnings (fst (blkzone_report w (ctl\<lparr>length_c := l\<rparr>)))
        = (if report_validated w ctl then [65536] else []))
   \<and> (l \<le> 65536 \<longrightarrow>
      warnings (fst (blkzone_report w (ctl\<lparr>length_c := l\<rparr>))) = []
    \<and> (report_validated w ctl
         \<and> xmalloc_ok w (sizeof_blk_zone_report + (if l = 0 then 1 else l) * sizeof_blk_zone) \<longrightarrow>
         report_requests (fst (blkzone_report w (ctl\<lparr>length_c := l\<rparr>)))
           = [(offset ctl, ucast (if l = 0 then 1 else l))]))"
proof (cases "report_validated w ctl")
  case True
  then have v: "report_validated w (ctl\<lparr>length_c := l\<rparr>)"
    by simp
  show ?thesis
  proof (cases "l > 65536")
    case over: True
    then have "\<not> l \<le> 65536"
      by (simp add: not_le)
    with over True validated_length_clamped [OF True over] validated_run(1) [OF v]
    show ?thesis
      by (simp add: MAX_REPORT_LEN_val)
  next
    case under: False
    then have le: "l \<le> 65536"
      by (simp add: not_less)
    with under True validated_run [OF v] show ?thesis
      by (simp add: MAX_REPORT_LEN_val report_length_under)
  qed
next
  case False
  have same: "blkzone_report w (ctl\<lparr>length_c := l\<rparr>) = blkzone_report w ctl"
    "blkzone_report w (ctl\<lparr>length_c := 65536\<rparr>) = blkzone_report w ctl"
    using False by (simp_all add: not_validated_length)
  obtain t r where init: "init_device w ctl O_RDONLY = (t, r)"
    by (cases "init_device w ctl O_RDONLY")
  have t: "filter (\<lambda>e. \<not> is_warning e) t = t"
    using no_warning_init [of w ctl O_RDONLY] init by simp
  have "fst (blkzone_report w ctl) = t"
  proof (cases r)
    case (Inl e)
    with init show ?thesis
      by (simp add: blkzone_report_init_failed)
  next
    case (Inr c)
    with init False have "offset c > total_sectors c"
      by (simp add: report_validated_def)
    with init Inr show ?thesis
      by (simp add: blkzone_report_offset_failed)
  qed
  with t have "filter (\<lambda>e. \<not> is_warning e) (fst (blkzone_report w ctl)) = fst (blkzone_report w ctl)"
    by simp
  with False same not_validated_quiet [OF False] show ?thesis
    by simp
qed

theorem report_length_limited_witness:
  "(70000 :: u64) > 65536
   \<and> report_validated example_world (example_ctl 0 0)
   \<and> snd (blkzone_report example_world (example_ctl 0 70000))
       = snd (blkzone_report example_world (example_ctl 0 65536))
   \<and> filter (\<lambda>e. \<not> is_warning e) (fst (blkzone_report example_world (example_ctl 0 70000)))
       = fst (blkzone_report example_world (example_ctl 0 65536))
   \<and> warnings (fst (blkzone_report example_world (example_ctl 0 70000))) = [65536]
   \<and> (2 :: u64) \<le> 65536
   \<and> warnings (fst (blkzone_report example_world (example_ctl 0 2))) = []
   \<and> report_requests (fst (blkzone_report example_world (example_ctl 0 2))) = [(0, 2)]"
proof -
  have upd: "(example_ctl 0 0)\<lparr>length_c := l\<rparr> = example_ctl 0 l" for l
    by (simp add: example_ctl_def)
  have v: "report_validated example_world (example_ctl 0 0)"
    by (simp add: report_validated_def example_init)
  have a: "xmalloc_ok example_world n" for n
    by (simp add: example_world_def)
  from report_length_limited [of 70000 example_world "example_ctl 0 0"]
    report_length_limited [of 2 example_world "example_ctl 0 0"] v a
  show ?thesis
    by (simp add: upd example_ctl_fields)
qed

text \<open>
  C8. The type name of a zone is read from the table of four names at the subscript that
  is the type code of the descriptor itself, with no mask and no check: the lookup is
  inside the table exactly when the type code is at most 3. A report reads no string from
  outside a table exactly when every descriptor before the first one of length zero has
  a type code of at most 3 and a condition code whose mnemonic is inside its table.
\<close>

theorem type_lookup_unchecked:
  assumes req: "report_requests (fst (blkzone_report w ctl)) = [(s, n)]"
    and ans: "ioctl_blkreportzone w s n = Some zi"
  shows "length type_text = 4
       \<and> (\<forall>z. l_type_text (format_zone z) = array_read type_text (unat (type z)))
       \<and> (\<forall>z. l_type_text (format_zone z) \<noteq> None \<longleftrightarrow> unat (type z) \<le> 3)
       \<and> (snd (blkzone_report w ctl) \<noteq> Inl ReadPastTable
            \<longleftrightarrow> (\<forall>z \<in> set (takeWhile (\<lambda>z. len z \<noteq> 0)
                                (take (unat (nr_zones zi)) (take (unat n) (zones zi)))).
                   unat (type z) \<le> 3 \<and> cond z AND 15 \<noteq> 15))"
proof -
  have direct: "\<forall>z. l_type_text (format_zone z) = array_read type_text (unat (type z))"
    by (simp add: format_zone_def type_index_def unat_ucast_u8_u32)
  have inside: "\<forall>z. l_type_text (format_zone z) \<noteq> None \<longleftrightarrow> unat (type z) \<le> 3"
    using type_lookup_inside by blast
  have fault: "snd (blkzone_report w ctl) \<noteq> Inl ReadPastTable
      \<longleftrightarrow> (\<forall>z \<in> set (takeWhile (\<lambda>z. len z \<noteq> 0)
                          (take (unat (nr_zones zi)) (take (unat n) (zones zi)))).
             unat (type z) \<le> 3 \<and> cond z AND 15 \<noteq> 15)"
    using report_output_table_fault
      [of "verbose ctl" "zi\<lparr>zones := take (unat n) (zones zi)\<rparr>"]
    by (simp add: report_answered(2) [OF req ans] lookups_inside_iff)
  from type_text_length direct inside fault show ?thesis
    by blast
qed

theorem type_lookup_unchecked_witness:
  "report_requests
     (fst (blkzone_report (example_world_answering odd_type_answer) (example_ctl 0 2))) = [(0, 2)]
   \<and> ioctl_blkreportzone (example_world_answering odd_type_answer) 0 2 = Some odd_type_answer
   \<and> unat (type ((example_zone 1)\<lparr>type := 7\<rparr>)) = 7
   \<and> snd (blkzone_report (example_world_answering odd_type_answer) (example_ctl 0 2))
       = Inl ReadPastTable"
proof -
  have h1: "report_requests
     (fst (blkzone_report (example_world_answering odd_type_answer) (example_ctl 0 2))) = [(0, 2)]"
    by (simp add: odd_type_answer_report)
  have h2: "ioctl_blkreportzone (example_world_answering odd_type_answer) 0 2
      = Some odd_type_answer"
    by (simp add: example_world_answering_def)
  have "\<not> (\<forall>z \<in> set (takeWhile (\<lambda>z. len z \<noteq> 0)
        (take (unat (nr_zones odd_type_answer)) (take (unat (2 :: u32)) (zones odd_type_answer)))).
          unat (type z) \<le> 3 \<and> cond z AND 15 \<noteq> 15)"
    by (simp add: odd_type_answer_def example_zone_def)
  with type_lookup_unchecked [OF h1 h2]
  have "snd (blkzone_report (example_world_answering odd_type_answer) (example_ctl 0 2))
      = Inl ReadPastTable"
    by blast
  with h1 h2 show ?thesis
    by simp
qed

text \<open>
  C9. When the reset operation exits because the zone size cannot be determined, the
  offset is not aligned or the offset is greater than the device size, it has issued no
  reset to the device. The zone size is read and checked first: the run begins with the
  calls of \<^verbatim>\<open>blkdev_chunk_sectors\<close>, none of which opens the device; when the zone size
  cannot be determined the device is never opened, and the device is opened only when a
  zone size was read.
\<close>

theorem reset_validation_failure_issues_no_reset:
  "(snd (blkzone_reset w ctl) = Inl UnableToDetermineZoneSize
      \<or> snd (blkzone_reset w ctl) = Inl ZoneNotAligned
      \<or> snd (blkzone_reset w ctl) = Inl OffsetGreaterThanDeviceSize
    \<longrightarrow> reset_ranges (fst (blkzone_reset w ctl)) = [])
   \<and> (snd (blkzone_reset w ctl) = Inl UnableToDetermineZoneSize
    \<longrightarrow> opens (fst (blkzone_reset w ctl)) = [])
   \<and> (opens (fst (blkzone_reset w ctl)) \<noteq> []
    \<longrightarrow> snd (blkdev_chunk_sectors w (devname ctl)) \<noteq> 0)
   \<and> take (length (fst (blkdev_chunk_sectors w (devname ctl)))) (fst (blkzone_reset w ctl))
       = fst (blkdev_chunk_sectors w (devname ctl))
   \<and> opens (fst (blkdev_chunk_sectors w (devname ctl))) = []"
proof (cases "snd (blkdev_chunk_sectors w (devname ctl)) = 0")
  case True
  then show ?thesis
    by (simp add: blkzone_reset_no_zone_size)
next
  case False
  obtain t r where init: "init_device w ctl O_WRONLY = (t, r)"
    by (cases "init_device w ctl O_WRONLY")
  have quiet: "reset_ranges t = []"
    using init_device_quiet(5) [of w ctl O_WRONLY] init by simp
  have opened: "opens t = [O_WRONLY]"
    using init_device_opens [of w ctl O_WRONLY] init by simp
  show ?thesis
  proof (cases r)
    case (Inl e)
    with False init quiet opened init_device_errors [of w ctl O_WRONLY t e] show ?thesis
      by (auto simp: blkzone_reset_init_failed)
  next
    case (Inr c)
    with False init quiet opened show ?thesis
      by (simp add: blkzone_reset_opened [OF refl False])
  qed
qed

theorem reset_validation_failure_issues_no_reset_witness:
  "snd (blkzone_reset no_sysfs_world (example_ctl 0 1)) = Inl UnableToDetermineZoneSize
   \<and> reset_ranges (fst (blkzone_reset no_sysfs_world (example_ctl 0 1))) = []
   \<and> opens (fst (blkzone_reset no_sysfs_world (example_ctl 0 1))) = []
   \<and> snd (blkzone_reset example_world (example_ctl 5 1)) = Inl ZoneNotAligned
   \<and> reset_ranges (fst (blkzone_reset example_world (example_ctl 5 1))) = []
   \<and> snd (blkzone_reset example_world (example_ctl 1048576 1)) = Inl OffsetGreaterThanDeviceSize
   \<and> reset_ranges (fst (blkzone_reset example_world (example_ctl 1048576 1))) = []
   \<and> opens (fst (blkzone_reset example_world (example_ctl 0 1))) = [O_WRONLY]
   \<and> snd (blkdev_chunk_sectors example_world ''/dev/sda1'') \<noteq> 0"
proof -
  have h1: "snd (blkzone_reset no_sysfs_world (example_ctl 0 1)) = Inl UnableToDetermineZoneSize"
    by (simp add: no_sysfs_reset)
  have h2: "snd (blkzone_reset example_world (example_ctl 5 1)) = Inl ZoneNotAligned"
    by (simp add: example_reset_misaligned)
  have h3: "snd (blkzone_reset example_world (example_ctl 1048576 1))
      = Inl OffsetGreaterThanDeviceSize"
    by (simp add: example_reset_beyond)
  have h4: "opens (fst (blkzone_reset example_world (example_ctl 0 1))) = [O_WRONLY]"
    by (simp add: example_reset_first_zone)
  from reset_validation_failure_issues_no_reset [of no_sysfs_world "example_ctl 0 1"]
    reset_validation_failure_issues_no_reset [of example_world "example_ctl 5 1"]
    reset_validation_failure_issues_no_reset [of example_world "example_ctl 1048576 1"]
    reset_validation_failure_issues_no_reset [of example_world "example_ctl 0 1"]
    h1 h2 h3 h4
  show ?thesis
    by (simp add: example_ctl_fields)
qed

text \<open>
  C10. Whenever the report operation makes its request to the device, it makes exactly
  one, at the offset given, for a zone count \<open>n\<close> between 1 and 65536, and the one buffer
  it allocated before has room for exactly \<open>n\<close> descriptors: its size is the 16 bytes of
  the report header and 64 bytes for each of the \<open>n\<close> zones.
\<close>

theorem report_request_in_bounds:
  assumes "(s, n) \<in> set (report_requests (fst (blkzone_report w ctl)))"
  shows "1 \<le> unat n \<and> unat n \<le> 65536
       \<and> report_requests (fst (blkzone_report w ctl)) = [(offset ctl, n)]
       \<and> allocations (fst (blkzone_report w ctl))
           = [sizeof_blk_zone_report + ucast n * sizeof_blk_zone]
       \<and> unat (sizeof_blk_zone_report + ucast n * sizeof_blk_zone) = 16 + unat n * 64"
proof -
  have v: "report_validated w ctl"
  proof (rule ccontr)
    assume "\<not> report_validated w ctl"
    then have "report_requests (fst (blkzone_report w ctl)) = []"
      by (simp add: not_validated_quiet)
    with assms show False
      by simp
  qed
  from assms validated_run(3) [OF v]
  have n: "n = ucast (report_length (length_c ctl))"
    and req: "report_requests (fst (blkzone_report w ctl)) = [(offset ctl, n)]"
    by (auto split: if_splits)
  from n show ?thesis
    using report_length_bounds [of "length_c ctl"] req validated_run(2) [OF v]
    by (simp add: report_length_ucast ucast_report_length allocation_size)
qed

theorem report_request_in_bounds_witness:
  "(0, 2) \<in> set (report_requests (fst (blkzone_report example_world (example_ctl 0 2))))
   \<and> 1 \<le> unat (2 :: u32) \<and> unat (2 :: u32) \<le> 65536
   \<and> allocations (fst (blkzone_report example_world (example_ctl 0 2))) = [144]
   \<and> unat (144 :: u64) = 16 + unat (2 :: u32) * 64"
proof -
  have h: "(0, 2) \<in> set (report_requests (fst (blkzone_report example_world (example_ctl 0 2))))"
    by (simp add: example_report_2)
  from report_request_in_bounds [OF h] h show ?thesis
    by (simp add: sizeof_blk_zone_report_def sizeof_blk_zone_def)
qed

end
